theory Spec2Isabelle
  imports Complex_Main
begin

section \<open>Values of the host language\<close>

subsection \<open>Numbers\<close>

text \<open>
  The program reads numbers, compares them and prints them; it never adds or multiplies
  them. A number is therefore kept as the decimal that printing shows: \<open>Dec m e\<close> stands
  for \<open>m * 10 ^ e\<close>, beside the three values that are not finite. Every finite double has
  such a decimal, and the order of doubles is the order of these decimals. The two zeros
  are one value here (they compare equal and both print as \<open>0\<close>).
\<close>

datatype number = NaN | PosInfinity | NegInfinity | Dec int int

definition dec_val :: "int \<Rightarrow> int \<Rightarrow> rat" where
  "dec_val m e = of_int m * 10 powi e"

text \<open>The operator \<open>a < b\<close> on numbers: false as soon as one side is \<open>NaN\<close>.\<close>

fun js_lt :: "number \<Rightarrow> number \<Rightarrow> bool" where
  "js_lt NaN b = False"
| "js_lt a NaN = False"
| "js_lt PosInfinity b = False"
| "js_lt NegInfinity NegInfinity = False"
| "js_lt NegInfinity b = True"
| "js_lt (Dec m e) PosInfinity = True"
| "js_lt (Dec m e) NegInfinity = False"
| "js_lt (Dec m e) (Dec m' e') = (dec_val m e < dec_val m' e')"

text \<open>The operator \<open>a > b\<close>.\<close>

definition js_gt :: "number \<Rightarrow> number \<Rightarrow> bool" where
  "js_gt a b = js_lt b a"

text \<open>The operator \<open>a === b\<close> on numbers: \<open>NaN\<close> equals nothing, itself included.\<close>

fun js_strict_eq :: "number \<Rightarrow> number \<Rightarrow> bool" where
  "js_strict_eq NaN b = False"
| "js_strict_eq PosInfinity b = (b = PosInfinity)"
| "js_strict_eq NegInfinity b = (b = NegInfinity)"
| "js_strict_eq (Dec m e) b =
     (case b of Dec m' e' \<Rightarrow> dec_val m e = dec_val m' e' | _ \<Rightarrow> False)"

text \<open>The number of an array or string length.\<close>

definition of_length :: "nat \<Rightarrow> number" where
  "of_length n = Dec (int n) 0"

subsection \<open>Printing a number\<close>

text \<open>The decimal digits of a natural number, most significant first.\<close>

fun digits :: "nat \<Rightarrow> nat list" where
  "digits n = (if n < 10 then [n] else digits (n div 10) @ [n mod 10])"

declare digits.simps [simp del]

definition digit_char :: "nat \<Rightarrow> char" where
  "digit_char d = ''0123456789'' ! d"

definition decimal :: "nat \<Rightarrow> string" where
  "decimal n = map digit_char (digits n)"

text \<open>
  \<open>Number::toString\<close> of the language standard, radix 10, for a positive \<open>a * 10 ^ e\<close>.
  With \<open>s\<close> the digits of \<open>a\<close> without its trailing zeros, \<open>k\<close> their number and \<open>n\<close> the
  position of the decimal point (\<open>a * 10 ^ e = 0.s * 10 ^ n\<close>): plain notation when
  \<open>-5 \<le> n \<le> 21\<close>, exponent notation otherwise.
\<close>

definition positive_toString :: "nat \<Rightarrow> int \<Rightarrow> string" where
  "positive_toString a e =
     (let ds = digits a;
          s = map digit_char (rev (dropWhile (\<lambda>d. d = 0) (rev ds)));
          k = int (length s);
          n = int (length ds) + e
      in if - 5 \<le> n \<and> n \<le> 21 then
           (if k \<le> n then s @ replicate (nat (n - k)) CHR ''0''
            else if 0 < n then take (nat n) s @ ''.'' @ drop (nat n) s
            else ''0.'' @ replicate (nat (- n)) CHR ''0'' @ s)
         else
           (if k = 1 then s else take 1 s @ ''.'' @ drop 1 s)
             @ ''e'' @ (if n - 1 < 0 then ''-'' else ''+'') @ decimal (nat \<bar>n - 1\<bar>))"

fun number_toString :: "number \<Rightarrow> string" where
  "number_toString NaN = ''NaN''"
| "number_toString PosInfinity = ''Infinity''"
| "number_toString NegInfinity = ''-Infinity''"
| "number_toString (Dec m e) =
     (if m = 0 then ''0''
      else if m < 0 then ''-'' @ positive_toString (nat (- m)) e
      else positive_toString (nat m) e)"

subsection \<open>Strings\<close>

text \<open>
  A string is the list of its code units, and \<open>length\<close> counts them. The type \<open>char\<close>
  holds the code units below 256; the white space and line terminators among them are
  what \<open>trim\<close> strips from both ends.
\<close>

definition is_white_space :: "char \<Rightarrow> bool" where
  "is_white_space c = (c \<in> set [CHR 0x09, CHR 0x0A, CHR 0x0B, CHR 0x0C, CHR 0x0D, CHR 0x20, CHR 0xA0])"

definition trim :: "string \<Rightarrow> string" where
  "trim s = rev (dropWhile is_white_space (rev (dropWhile is_white_space s)))"

text \<open>A value of type \<open>string | number\<close>, and its method \<open>toString\<close>.\<close>

datatype js_value = Str string | Num number

fun toString :: "js_value \<Rightarrow> string" where
  "toString (Str s) = s"
| "toString (Num n) = number_toString n"

section \<open>Validation\<close>

text \<open>
  The interface \<open>Validatable\<close>. An optional property is \<open>None\<close> when it is absent
  (\<open>undefined\<close>); the fields named after \<open>value\<close>, \<open>min\<close> and \<open>max\<close> carry a prime.
\<close>

record Validatable =
  value' :: js_value
  required :: "bool option"
  minLength :: "number option"
  maxLength :: "number option"
  min' :: "number option"
  max' :: "number option"

text \<open>
  The function \<open>validate\<close>: five tests in a row, each one entered only when its property
  is present (and, for the four bounds, when the value has the matching type), each one
  updating the local \<open>isValid\<close>.
\<close>

definition validate :: "Validatable \<Rightarrow> bool" where
  "validate validateableInput =
     (let isValid = True;
          isValid =
            (if required validateableInput = Some True
             then isValid \<and> length (trim (toString (value' validateableInput))) \<noteq> 0
             else isValid);
          isValid =
            (case (minLength validateableInput, value' validateableInput) of
               (Some bound, Str s) \<Rightarrow> isValid \<and> js_gt (of_length (length s)) bound
             | _ \<Rightarrow> isValid);
          isValid =
            (case (maxLength validateableInput, value' validateableInput) of
               (Some bound, Str s) \<Rightarrow> isValid \<and> js_lt (of_length (length s)) bound
             | _ \<Rightarrow> isValid);
          isValid =
            (case (min' validateableInput, value' validateableInput) of
               (Some bound, Num n) \<Rightarrow> isValid \<and> js_gt n bound
             | _ \<Rightarrow> isValid);
          isValid =
            (case (max' validateableInput, value' validateableInput) of
               (Some bound, Num n) \<Rightarrow> isValid \<and> js_lt n bound
             | _ \<Rightarrow> isValid)
      in isValid)"

section \<open>Projects and the store\<close>

datatype ProjectStatus = Active | Finished

text \<open>The class \<open>Project\<close>; its field \<open>id\<close> carries a prime.\<close>

record Project =
  id' :: string
  title :: string
  description :: string
  people :: number
  status :: ProjectStatus

text \<open>
  Projects are objects: the store's array, the arrays handed to listeners and the arrays
  the views keep all hold references to the same objects. The heap is the list of the
  objects allocated so far and a reference is a position in it; \<open>new Project(...)\<close>
  appends one. Arrays are values: \<open>slice\<close> and \<open>filter\<close> build a new array, and no array
  is ever shared and then written.
\<close>

type_synonym ref = nat

type_synonym heap = "Project list"

text \<open>
  A listener is a function of the array it is given. What it does is an effect on the
  rest of the program, of type \<open>'w\<close> (for this program, the page and its views), and it
  may read the objects of the heap. The one listener that the program registers does no
  more than that: it writes neither the store nor an object.
\<close>

type_synonym 'w Listener = "ref list \<Rightarrow> heap \<Rightarrow> 'w \<Rightarrow> 'w"

text \<open>
  The whole state: the two fields of the one \<open>ProjectState\<close> instance, \<open>listeners\<close>
  (inherited from \<open>State\<close>) and \<open>projects\<close>, then the heap and the rest.
\<close>

record 'w system =
  listeners :: "'w Listener list"
  projects :: "ref list"
  heap :: heap
  world :: 'w

definition addListener :: "'w Listener \<Rightarrow> 'w system \<Rightarrow> 'w system" where
  "addListener listenerFn s = s\<lparr>listeners := listeners s @ [listenerFn]\<rparr>"

text \<open>
  \<open>updateListeners\<close>: the loop over the listeners, each called with
  \<open>this.projects.slice()\<close>.
\<close>

primrec call_listeners :: "'w Listener list \<Rightarrow> ref list \<Rightarrow> heap \<Rightarrow> 'w \<Rightarrow> 'w" where
  "call_listeners [] ps h w = w"
| "call_listeners (listenerFn # rest) ps h w = call_listeners rest ps h (listenerFn ps h w)"

definition updateListeners :: "'w system \<Rightarrow> 'w system" where
  "updateListeners s =
     s\<lparr>world := call_listeners (listeners s) (projects s) (heap s) (world s)\<rparr>"

text \<open>
  \<open>addProject\<close>. The argument \<open>random\<close> is what \<open>Math.random()\<close> returns in this call.
\<close>

definition addProject :: "string \<Rightarrow> string \<Rightarrow> number \<Rightarrow> number \<Rightarrow> 'w system \<Rightarrow> 'w system" where
  "addProject title_arg description_arg numOfPeople random s =
     (let newProject = \<lparr>id' = number_toString random, title = title_arg,
                        description = description_arg, people = numOfPeople,
                        status = Active\<rparr>;
          newRef = length (heap s)
      in updateListeners
           (s\<lparr>heap := heap s @ [newProject], projects := projects s @ [newRef]\<rparr>))"

text \<open>\<open>moveProject\<close>: \<open>find\<close> gives the first match or \<open>undefined\<close>.\<close>

definition moveProject :: "string \<Rightarrow> ProjectStatus \<Rightarrow> 'w system \<Rightarrow> 'w system" where
  "moveProject projectId newStatus s =
     (case find (\<lambda>prj. id' (heap s ! prj) = projectId) (projects s) of
        None \<Rightarrow> s
      | Some project \<Rightarrow>
          if status (heap s ! project) \<noteq> newStatus
          then updateListeners
                 (s\<lparr>heap := (heap s)[project := (heap s ! project)\<lparr>status := newStatus\<rparr>]\<rparr>)
          else s)"

text \<open>
  The store's array holds each of its objects once, and every reference in it points
  into the heap.
\<close>

definition refs_ok :: "'w system \<Rightarrow> bool" where
  "refs_ok s = (distinct (projects s) \<and> list_all (\<lambda>r. r < length (heap s)) (projects s))"

section \<open>The views\<close>

text \<open>The type \<open>"active" | "finished"\<close> of a project list.\<close>

datatype list_type = active | finished

text \<open>
  A \<open>ProjectItem\<close>: the project it was built for and the text that \<open>renderContent\<close>
  wrote into the \<open>h2\<close>, \<open>h3\<close> and \<open>p\<close> of its element.
\<close>

record ProjectItem =
  project :: ref
  h2 :: string
  h3 :: string
  p :: string

text \<open>
  The page: the values of the three inputs of \<open>ProjectInput\<close>, for each of the two
  \<open>ProjectList\<close> instances its \<open>assignedProjects\<close> and the items under its \<open>ul\<close>, and
  the alerts shown so far. The templates of the host page are not among the source
  files; the page is taken to hold what the code looks up in it: the three inputs, one
  \<open>ul\<close> per list, and an \<open>h2\<close>, an \<open>h3\<close> and a \<open>p\<close> in every item.
\<close>

record page =
  titleInputElement :: string
  descriptionInputElement :: string
  peopleInputElement :: string
  assignedProjects :: "list_type \<Rightarrow> ref list"
  listEl :: "list_type \<Rightarrow> ProjectItem list"
  alerts :: "string list"

text \<open>The getter \<open>persons\<close>, and the constructor of \<open>ProjectItem\<close> with its \<open>renderContent\<close>.\<close>

definition persons :: "Project \<Rightarrow> string" where
  "persons prj =
     (if js_strict_eq (people prj) (Dec 1 0) then ''1 person''
      else number_toString (people prj) @ '' persons'')"

definition new_ProjectItem :: "heap \<Rightarrow> ref \<Rightarrow> ProjectItem" where
  "new_ProjectItem h prj =
     \<lparr>project = prj, h2 = title (h ! prj), h3 = persons (h ! prj) @ '' assigned'',
      p = description (h ! prj)\<rparr>"

text \<open>
  \<open>renderProjects\<close>: the list is emptied, then one item is appended per assigned
  project.
\<close>

primrec append_items :: "heap \<Rightarrow> ref list \<Rightarrow> ProjectItem list \<Rightarrow> ProjectItem list" where
  "append_items h [] els = els"
| "append_items h (prjItem # rest) els = append_items h rest (els @ [new_ProjectItem h prjItem])"

definition renderProjects :: "list_type \<Rightarrow> heap \<Rightarrow> page \<Rightarrow> page" where
  "renderProjects type h pg =
     pg\<lparr>listEl := (listEl pg)(type := append_items h (assignedProjects pg type) [])\<rparr>"

text \<open>The listener that \<open>ProjectList.configure\<close> registers.\<close>

definition projectListListener :: "list_type \<Rightarrow> page Listener" where
  "projectListListener type ps h pg =
     (let relevantProjects =
            filter (\<lambda>prj. if type = active then status (h ! prj) = Active
                          else status (h ! prj) = Finished) ps
      in renderProjects type h
           (pg\<lparr>assignedProjects := (assignedProjects pg)(type := relevantProjects)\<rparr>))"

text \<open>
  The constructor of \<open>ProjectList\<close>: \<open>assignedProjects\<close> starts empty and \<open>configure\<close>
  registers the listener.
\<close>

definition new_ProjectList :: "list_type \<Rightarrow> page system \<Rightarrow> page system" where
  "new_ProjectList type s =
     addListener (projectListListener type)
       (s\<lparr>world := (world s)\<lparr>assignedProjects := (assignedProjects (world s))(type := [])\<rparr>\<rparr>)"

text \<open>
  \<open>dropHandler\<close> of a list; \<open>projId\<close> is the text that the drag carries.
\<close>

definition dropHandler :: "list_type \<Rightarrow> string \<Rightarrow> page system \<Rightarrow> page system" where
  "dropHandler type projId s =
     moveProject projId (if type = active then Active else Finished) s"

text \<open>
  The program's start on a page \<open>pg\<close>: the store is created empty, then the input view
  (which changes nothing) and the two lists.
\<close>

definition start :: "page \<Rightarrow> page system" where
  "start pg =
     new_ProjectList finished
       (new_ProjectList active \<lparr>listeners = [], projects = [], heap = [], world = pg\<rparr>)"

section \<open>The input view\<close>

definition titleValidatable :: "string \<Rightarrow> Validatable" where
  "titleValidatable enteredTitle =
     \<lparr>value' = Str enteredTitle, required = Some True, minLength = None, maxLength = None,
      min' = None, max' = None\<rparr>"

definition descriptionValidatable :: "string \<Rightarrow> Validatable" where
  "descriptionValidatable enteredDescription =
     \<lparr>value' = Str enteredDescription, required = Some True, minLength = Some (Dec 5 0),
      maxLength = None, min' = None, max' = None\<rparr>"

definition peopleValidatable :: "number \<Rightarrow> Validatable" where
  "peopleValidatable enteredPeople =
     \<lparr>value' = Num enteredPeople, required = Some True, minLength = None, maxLength = None,
      min' = Some (Dec 1 0), max' = Some (Dec 5 0)\<rparr>"

text \<open>
  \<open>gatherUserInput\<close>. The unary plus that turns the text of the people input into a
  number is the parameter \<open>toNumber\<close>.
\<close>

definition gatherUserInput :: "(string \<Rightarrow> number) \<Rightarrow> page \<Rightarrow> (string \<times> string \<times> number) option \<times> page" where
  "gatherUserInput toNumber pg =
     (let enteredTitle = titleInputElement pg;
          enteredDescription = descriptionInputElement pg;
          enteredPeople = peopleInputElement pg
      in if \<not> validate (titleValidatable enteredTitle)
            \<or> \<not> validate (descriptionValidatable enteredDescription)
            \<or> \<not> validate (peopleValidatable (toNumber enteredPeople))
         then (None, pg\<lparr>alerts := alerts pg @ [''Invalid input, please try again'']\<rparr>)
         else (Some (enteredTitle, enteredDescription, toNumber enteredPeople), pg))"

definition clearInputs :: "page system \<Rightarrow> page system" where
  "clearInputs s =
     s\<lparr>world := (world s)\<lparr>titleInputElement := [], descriptionInputElement := [],
                            peopleInputElement := []\<rparr>\<rparr>"

text \<open>\<open>submitHandler\<close>; \<open>random\<close> is passed on to \<open>addProject\<close>.\<close>

definition submitHandler :: "(string \<Rightarrow> number) \<Rightarrow> number \<Rightarrow> page system \<Rightarrow> page system" where
  "submitHandler toNumber random s =
     (let (userInput, pg) = gatherUserInput toNumber (world s);
          s = s\<lparr>world := pg\<rparr>;
          s = (case userInput of
                 Some (title_in, desc, people_in) \<Rightarrow>
                   clearInputs (addProject title_in desc people_in random s)
               | None \<Rightarrow> s)
      in clearInputs s)"

section \<open>Stores used as examples\<close>

text \<open>
  A listener for observing calls: it appends its own number and the array it is given
  to a log.
\<close>

definition record_call :: "nat \<Rightarrow> (nat \<times> ref list) list Listener" where
  "record_call i ps h w = w @ [(i, ps)]"

text \<open>An empty store with two recording listeners, and one with a project in it.\<close>

definition two_recorders :: "(nat \<times> ref list) list system" where
  "two_recorders = \<lparr>listeners = [record_call 0, record_call 1], projects = [], heap = [], world = []\<rparr>"

definition one_project :: "(nat \<times> ref list) list system" where
  "one_project = addProject ''Build API'' ''Design and build a REST API'' (Dec 3 0) (Dec 5 (- 1)) two_recorders"

text \<open>A page with nothing entered and nothing shown.\<close>

definition empty_page :: page where
  "empty_page =
     \<lparr>titleInputElement = [], descriptionInputElement = [], peopleInputElement = [],
      assignedProjects = (\<lambda>type. []), listEl = (\<lambda>type. []), alerts = []\<rparr>"

section \<open>Properties of the number printer and of validation\<close>

text \<open>
  What \<open>toString\<close> gives for a number always holds a character that \<open>trim\<close> keeps: a
  digit, a sign, a point or a letter.
\<close>

lemma digits_below_ten: "d \<in> set (digits n) \<Longrightarrow> d < 10"
proof (induction n rule: digits.induct)
  case (1 n)
  show ?case
  proof (cases "n < 10")
    case True
    with "1.prems" show ?thesis by (simp add: digits.simps [of n])
  next
    case False
    with "1.prems" have "d \<in> set (digits (n div 10)) \<or> d = n mod 10"
      by (auto simp add: digits.simps [of n])
    with False "1.IH" show ?thesis by auto
  qed
qed

lemma digits_not_all_zero: "0 < n \<Longrightarrow> \<exists>d \<in> set (digits n). d \<noteq> 0"
proof (induction n rule: digits.induct)
  case (1 n)
  show ?case
  proof (cases "n < 10")
    case True
    with "1.prems" show ?thesis by (simp add: digits.simps [of n])
  next
    case False
    then have "0 < n div 10" by simp
    with False "1.IH" have "\<exists>d \<in> set (digits (n div 10)). d \<noteq> 0" by simp
    with False show ?thesis by (auto simp add: digits.simps [of n])
  qed
qed

lemma digit_char_not_white_space: "d < 10 \<Longrightarrow> \<not> is_white_space (digit_char d)"
proof -
  assume "d < 10"
  then have "d \<in> {0, 1, 2, 3, 4, 5, 6, 7, 8, 9}" by auto
  then show ?thesis by (auto simp add: digit_char_def is_white_space_def)
qed

lemma trim_not_empty:
  assumes "c \<in> set s" and "\<not> is_white_space c"
  shows "trim s \<noteq> []"
proof -
  let ?t = "dropWhile is_white_space s"
  from assms have ne: "?t \<noteq> []" by auto
  then have "\<not> is_white_space (hd ?t)" by (rule hd_dropWhile)
  moreover from ne have "hd ?t \<in> set (rev ?t)" by simp
  ultimately have "dropWhile is_white_space (rev ?t) \<noteq> []"
    by (auto simp del: set_rev)
  then show ?thesis by (simp add: trim_def)
qed

lemma stripped_digits_not_empty:
  assumes "0 < a"
  shows "rev (dropWhile (\<lambda>d. d = 0) (rev (digits a))) \<noteq> []"
proof -
  from assms obtain d where "d \<in> set (digits a)" "d \<noteq> 0"
    using digits_not_all_zero by blast
  then show ?thesis by auto
qed

lemma stripped_digits_below_ten:
  "d \<in> set (rev (dropWhile (\<lambda>d. d = 0) (rev (digits a)))) \<Longrightarrow> d < 10"
  using digits_below_ten set_dropWhileD by fastforce

lemma positive_toString_visible:
  assumes "0 < a"
  shows "\<exists>c \<in> set (positive_toString a e). \<not> is_white_space c"
proof -
  let ?s = "rev (dropWhile (\<lambda>d. d = 0) (rev (digits a)))"
  from assms have "?s \<noteq> []" by (rule stripped_digits_not_empty)
  then obtain d where d: "d \<in> set ?s" by (cases ?s) auto
  then have "d < 10" by (rule stripped_digits_below_ten)
  then have nws: "\<not> is_white_space (digit_char d)" by (rule digit_char_not_white_space)
  from d have mem: "digit_char d \<in> set (map digit_char ?s)" by simp
  have dot: "\<not> is_white_space CHR ''.''" and e: "\<not> is_white_space CHR ''e''"
    by (simp_all add: is_white_space_def)
  show ?thesis
    unfolding positive_toString_def Let_def
    using nws mem dot e by (auto simp del: set_rev set_map)
qed

lemma number_toString_visible: "\<exists>c \<in> set (number_toString n). \<not> is_white_space c"
proof (cases n)
  case (Dec m e)
  have minus: "\<not> is_white_space CHR ''-''" and zero: "\<not> is_white_space CHR ''0''"
    by (simp_all add: is_white_space_def)
  consider "m = 0" | "m < 0" | "0 < m" by linarith
  then show ?thesis
  proof cases
    case 1 with Dec zero show ?thesis by simp
  next
    case 2 with Dec minus show ?thesis by simp
  next
    case 3
    then have "0 < nat m" by simp
    from positive_toString_visible [OF this, of e] Dec 3 show ?thesis by simp
  qed
qed (simp_all add: is_white_space_def)

lemma trim_number_toString: "trim (number_toString n) \<noteq> []"
  using number_toString_visible [of n] trim_not_empty by blast

lemma validate_Str:
  "validate \<lparr>value' = Str s, required = r, minLength = a, maxLength = b, min' = c, max' = d\<rparr>
   = ((r = Some True \<longrightarrow> trim s \<noteq> [])
      \<and> (case a of None \<Rightarrow> True | Some bound \<Rightarrow> js_gt (of_length (length s)) bound)
      \<and> (case b of None \<Rightarrow> True | Some bound \<Rightarrow> js_lt (of_length (length s)) bound))"
  by (auto simp add: validate_def split: option.splits)

lemma validate_Num:
  "validate \<lparr>value' = Num n, required = r, minLength = a, maxLength = b, min' = c, max' = d\<rparr>
   = ((case c of None \<Rightarrow> True | Some bound \<Rightarrow> js_gt n bound)
      \<and> (case d of None \<Rightarrow> True | Some bound \<Rightarrow> js_lt n bound))"
  by (auto simp add: validate_def trim_number_toString split: option.splits)

lemma js_gt_of_length: "js_gt (of_length n) (of_length k) = (k < n)"
  by (simp add: js_gt_def of_length_def dec_val_def)

lemma js_lt_of_length: "js_lt (of_length n) (of_length k) = (n < k)"
  by (simp add: of_length_def dec_val_def)

text \<open>
  Claim C4. The people constraint that \<open>gatherUserInput\<close> builds for a number \<open>n\<close>, with
  \<open>required\<close>, \<open>min\<close> 1 and \<open>max\<close> 5, is valid exactly when \<open>n\<close> is finite and strictly
  between 1 and 5. The integers 1 and 5 are rejected; 2, 3 and 4 are accepted.
\<close>

theorem people_range:
  "peopleValidatable n =
     \<lparr>value' = Num n, required = Some True, minLength = None, maxLength = None,
      min' = Some (Dec 1 0), max' = Some (Dec 5 0)\<rparr>
   \<and> validate (peopleValidatable n) =
       (case n of Dec m e \<Rightarrow> 1 < dec_val m e \<and> dec_val m e < 5 | _ \<Rightarrow> False)
   \<and> \<not> validate (peopleValidatable (Dec 1 0))
   \<and> validate (peopleValidatable (Dec 2 0))
   \<and> validate (peopleValidatable (Dec 3 0))
   \<and> validate (peopleValidatable (Dec 4 0))
   \<and> \<not> validate (peopleValidatable (Dec 5 0))"
proof -
  have "validate (peopleValidatable n) =
          (case n of Dec m e \<Rightarrow> 1 < dec_val m e \<and> dec_val m e < 5 | _ \<Rightarrow> False)" for n
    by (cases n) (simp_all add: peopleValidatable_def validate_Num js_gt_def dec_val_def)
  then show ?thesis by (simp add: peopleValidatable_def dec_val_def)
qed

text \<open>
  Claim C5. For a string value the outcome of \<open>validate\<close> is the conjunction of the
  tests whose property is present: not empty after trimming when \<open>required\<close>, length
  strictly above \<open>minLength\<close>, length strictly below \<open>maxLength\<close>; an absent property
  adds nothing. For a number it is the conjunction of the tests against \<open>min\<close> and
  \<open>max\<close> that are present. With whole-number bounds \<open>k\<close> and \<open>l\<close> this reads \<open>k < length s\<close> and
  \<open>length s < l\<close>, and a string whose length equals a bound is rejected. The two
  examples of the specification follow.
\<close>

theorem validate_string_bounds:
  "validate \<lparr>value' = Str s, required = r, minLength = a, maxLength = b, min' = c, max' = d\<rparr>
     = ((r = Some True \<longrightarrow> trim s \<noteq> [])
        \<and> (\<forall>bound. a = Some bound \<longrightarrow> js_gt (of_length (length s)) bound)
        \<and> (\<forall>bound. b = Some bound \<longrightarrow> js_lt (of_length (length s)) bound))
   \<and> validate \<lparr>value' = Num n, required = r, minLength = a, maxLength = b, min' = c, max' = d\<rparr>
     = ((\<forall>bound. c = Some bound \<longrightarrow> js_gt n bound)
        \<and> (\<forall>bound. d = Some bound \<longrightarrow> js_lt n bound))
   \<and> validate \<lparr>value' = Str s, required = r, minLength = Some (of_length k),
                maxLength = Some (of_length l), min' = c, max' = d\<rparr>
     = ((r = Some True \<longrightarrow> trim s \<noteq> []) \<and> k < length s \<and> length s < l)
   \<and> \<not> validate \<lparr>value' = Str s, required = r, minLength = Some (of_length (length s)),
                  maxLength = b, min' = c, max' = d\<rparr>
   \<and> \<not> validate \<lparr>value' = Str s, required = r, minLength = a,
                  maxLength = Some (of_length (length s)), min' = c, max' = d\<rparr>
   \<and> \<not> validate \<lparr>value' = Str ''abc'', required = Some True, minLength = Some (Dec 5 0),
                  maxLength = None, min' = None, max' = None\<rparr>
   \<and> validate \<lparr>value' = Str ''abcdef'', required = None, minLength = Some (Dec 5 0),
                maxLength = None, min' = None, max' = None\<rparr>"
proof -
  have five: "Dec 5 0 = of_length 5" by (simp add: of_length_def)
  show ?thesis
    unfolding five
    by (auto simp add: validate_Str validate_Num js_gt_of_length js_lt_of_length
        split: option.splits)
qed

theorem validate_string_bounds_witness:
  "\<not> validate \<lparr>value' = Str ''abcde'', required = Some True, minLength = Some (Dec 5 0),
                maxLength = None, min' = None, max' = None\<rparr>
   \<and> validate \<lparr>value' = Str ''  abcdef'', required = Some True, minLength = Some (Dec 5 0),
                maxLength = Some (Dec 9 0), min' = None, max' = None\<rparr>
   \<and> \<not> validate \<lparr>value' = Str ''      '', required = Some True, minLength = Some (Dec 5 0),
                maxLength = None, min' = None, max' = None\<rparr>"
  using validate_string_bounds [of "''abcde''" "Some True" "Some (Dec 5 0)" None None None]
    validate_string_bounds [of "''  abcdef''" "Some True" "Some (Dec 5 0)" "Some (Dec 9 0)" None None]
    validate_string_bounds [of "''      ''" "Some True" "Some (Dec 5 0)" None None None]
  by (simp add: js_gt_def of_length_def dec_val_def trim_def is_white_space_def)

text \<open>
  Claim C10. The bounds are applied by type: \<open>min\<close> and \<open>max\<close> are skipped for a
  string, \<open>minLength\<close> and \<open>maxLength\<close> are skipped for a number, and \<open>required\<close> holds
  for every number, whose text is never empty after trimming.
\<close>

theorem validate_by_type:
  "validate \<lparr>value' = Str s, required = r, minLength = a, maxLength = b, min' = c, max' = d\<rparr>
     = validate \<lparr>value' = Str s, required = r, minLength = a, maxLength = b,
                 min' = None, max' = None\<rparr>
   \<and> validate \<lparr>value' = Num n, required = r, minLength = a, maxLength = b, min' = c, max' = d\<rparr>
     = validate \<lparr>value' = Num n, required = r, minLength = None, maxLength = None,
                 min' = c, max' = d\<rparr>
   \<and> validate \<lparr>value' = Num n, required = Some True, minLength = a, maxLength = b,
                min' = c, max' = d\<rparr>
     = validate \<lparr>value' = Num n, required = None, minLength = a, maxLength = b,
                 min' = c, max' = d\<rparr>
   \<and> validate \<lparr>value' = Num n, required = Some True, minLength = a, maxLength = b,
                min' = None, max' = None\<rparr>
   \<and> trim (toString (Num n)) \<noteq> []"
  by (simp add: validate_Str validate_Num trim_number_toString)

section \<open>Properties of the store\<close>

lemma call_listeners_fold:
  "call_listeners ls ps h w = fold (\<lambda>listenerFn. listenerFn ps h) ls w"
  by (induction ls arbitrary: w) simp_all

lemma updateListeners_store [simp]:
  "listeners (updateListeners s) = listeners s"
  "projects (updateListeners s) = projects s"
  "heap (updateListeners s) = heap s"
  by (simp_all add: updateListeners_def)

lemma find_in_projects:
  "find P xs = Some r \<Longrightarrow> r \<in> set xs \<and> P r"
  by (auto simp add: find_Some_iff)



lemma refs_ok_moveProject: "refs_ok s \<Longrightarrow> refs_ok (moveProject projectId newStatus s)"
  by (simp add: refs_ok_def moveProject_def split: option.splits)

lemmas print_simps = positive_toString_def digits.simps digit_char_def decimal_def

lemma one_project_eq:
  "one_project =
     \<lparr>listeners = [record_call 0, record_call 1], projects = [0],
      heap = [\<lparr>id' = ''0.5'', title = ''Build API'',
               description = ''Design and build a REST API'', people = Dec 3 0,
               status = Active\<rparr>],
      world = [(0, [0]), (1, [0])]\<rparr>"
  by (simp add: one_project_def two_recorders_def addProject_def updateListeners_def
      record_call_def print_simps)

text \<open>
  Claim C1, as the code has it. On a store whose references are in order, \<open>addProject\<close>
  appends one reference to the end of the array, to a new object with the given title,
  description and people, status \<open>Active\<close> and the printed random number as id; the
  objects of the other projects are as before. Then the listeners are called one after
  the other in the order of their registration, each once, with the new array. The new
  id differs from the ids of the other projects when the printed random number does;
  nothing in the code makes it so.
\<close>

theorem addProject_appends_and_notifies:
  fixes s :: "'w system" and t d :: string and n random :: number
  assumes ok: "refs_ok s"
  defines "s' \<equiv> addProject t d n random s"
  shows "projects s' = projects s @ [length (heap s)]
    \<and> length (heap s) \<notin> set (projects s)
    \<and> heap s' = heap s @ [\<lparr>id' = number_toString random, title = t, description = d,
                            people = n, status = Active\<rparr>]
    \<and> heap s' ! length (heap s) = \<lparr>id' = number_toString random, title = t,
                                     description = d, people = n, status = Active\<rparr>
    \<and> (\<forall>r \<in> set (projects s). heap s' ! r = heap s ! r)
    \<and> listeners s' = listeners s
    \<and> world s' = fold (\<lambda>listenerFn. listenerFn (projects s') (heap s')) (listeners s) (world s)
    \<and> (number_toString random \<notin> set (map (\<lambda>r. id' (heap s ! r)) (projects s))
        \<longrightarrow> (\<forall>r \<in> set (projects s). id' (heap s' ! r) \<noteq> id' (heap s' ! length (heap s))))"
proof -
  from ok have below: "\<forall>r \<in> set (projects s). r < length (heap s)"
    by (simp add: refs_ok_def list_all_iff)
  then have fresh: "length (heap s) \<notin> set (projects s)" by auto
  have h: "heap s' = heap s @ [\<lparr>id' = number_toString random, title = t, description = d,
                            people = n, status = Active\<rparr>]"
    and p: "projects s' = projects s @ [length (heap s)]"
    and l: "listeners s' = listeners s"
    by (simp_all add: s'_def addProject_def Let_def)
  have w: "world s' = fold (\<lambda>listenerFn. listenerFn (projects s') (heap s')) (listeners s) (world s)"
    unfolding h p by (simp add: s'_def addProject_def Let_def updateListeners_def call_listeners_fold)
  from below have same: "\<forall>r \<in> set (projects s). heap s' ! r = heap s ! r"
    by (simp add: h nth_append)
  have new: "heap s' ! length (heap s) = \<lparr>id' = number_toString random, title = t,
                                     description = d, people = n, status = Active\<rparr>"
    by (simp add: h)
  have uniq: "number_toString random \<notin> set (map (\<lambda>r. id' (heap s ! r)) (projects s))
        \<longrightarrow> (\<forall>r \<in> set (projects s). id' (heap s' ! r) \<noteq> id' (heap s' ! length (heap s)))"
    using same new by (auto simp add: image_iff)
  from p fresh h new same l w uniq show ?thesis by blast
qed

theorem addProject_appends_and_notifies_witness:
  "refs_ok one_project
   \<and> projects (addProject ''Shop'' ''A web shop'' (Dec 2 0) (Dec 25 (- 2)) one_project) = [0, 1]
   \<and> world (addProject ''Shop'' ''A web shop'' (Dec 2 0) (Dec 25 (- 2)) one_project)
       = [(0, [0]), (1, [0]), (0, [0, 1]), (1, [0, 1])]
   \<and> id' (heap (addProject ''Shop'' ''A web shop'' (Dec 2 0) (Dec 25 (- 2)) one_project) ! 0)
       \<noteq> id' (heap (addProject ''Shop'' ''A web shop'' (Dec 2 0) (Dec 25 (- 2)) one_project) ! 1)"
  using addProject_appends_and_notifies
    [of one_project "''Shop''" "''A web shop''" "Dec 2 0" "Dec 25 (- 2)"]
  by (simp add: one_project_eq refs_ok_def record_call_def print_simps)

text \<open>
  When \<open>Math.random()\<close> returns the same number in two calls, the two projects have the
  same id.
\<close>

theorem addProject_id_collision:
  "projects (addProject ''Shop'' ''A web shop'' (Dec 2 0) (Dec 5 (- 1)) one_project) = [0, 1]
   \<and> id' (heap (addProject ''Shop'' ''A web shop'' (Dec 2 0) (Dec 5 (- 1)) one_project) ! 0)
       = id' (heap (addProject ''Shop'' ''A web shop'' (Dec 2 0) (Dec 5 (- 1)) one_project) ! 1)"
  by (simp add: one_project_eq addProject_def print_simps)

text \<open>
  Claim C2. When no project has the id, or when the first project with the id already
  has the new status, \<open>moveProject\<close> returns the state as it was: the array, the
  objects and, whatever the listeners are, the state they act on.
\<close>

theorem moveProject_no_op:
  assumes "(\<forall>r \<in> set (projects s). id' (heap s ! r) \<noteq> projectId)
           \<or> (\<exists>r. find (\<lambda>prj. id' (heap s ! prj) = projectId) (projects s) = Some r
                  \<and> status (heap s ! r) = newStatus)"
  shows "moveProject projectId newStatus s = s"
proof -
  from assms consider
      (miss) "find (\<lambda>prj. id' (heap s ! prj) = projectId) (projects s) = None"
    | (same) r where "find (\<lambda>prj. id' (heap s ! prj) = projectId) (projects s) = Some r"
        and "status (heap s ! r) = newStatus"
    by (auto simp add: find_None_iff)
  then show ?thesis
    by cases (simp_all add: moveProject_def)
qed

theorem moveProject_no_op_witness:
  "moveProject ''0.25'' Finished one_project = one_project
   \<and> moveProject ''0.5'' Active one_project = one_project
   \<and> world one_project = [(0, [0]), (1, [0])]"
  using moveProject_no_op [of one_project "''0.25''" Finished]
    moveProject_no_op [of one_project "''0.5''" Active]
  by (simp add: one_project_eq)

text \<open>
  Claim C6. When the first project with the id has another status, \<open>moveProject\<close>
  changes the status field of that object and nothing else in the store: the array of
  references (its length and order), the listeners, the other fields of the object and
  every other object stay as they were.
\<close>

theorem moveProject_frame:
  assumes found: "find (\<lambda>prj. id' (heap s ! prj) = projectId) (projects s) = Some r"
    and differs: "status (heap s ! r) \<noteq> newStatus"
    and ok: "refs_ok s"
  shows "projects (moveProject projectId newStatus s) = projects s
    \<and> listeners (moveProject projectId newStatus s) = listeners s
    \<and> length (heap (moveProject projectId newStatus s)) = length (heap s)
    \<and> heap (moveProject projectId newStatus s) ! r = (heap s ! r)\<lparr>status := newStatus\<rparr>
    \<and> id' (heap (moveProject projectId newStatus s) ! r) = id' (heap s ! r)
    \<and> title (heap (moveProject projectId newStatus s) ! r) = title (heap s ! r)
    \<and> description (heap (moveProject projectId newStatus s) ! r) = description (heap s ! r)
    \<and> people (heap (moveProject projectId newStatus s) ! r) = people (heap s ! r)
    \<and> status (heap (moveProject projectId newStatus s) ! r) = newStatus
    \<and> (\<forall>r'. r' \<noteq> r \<longrightarrow> heap (moveProject projectId newStatus s) ! r' = heap s ! r')"
proof -
  from found have "r \<in> set (projects s)" by (simp add: find_in_projects)
  with ok have "r < length (heap s)" by (simp add: refs_ok_def list_all_iff)
  with found differs show ?thesis by (simp add: moveProject_def)
qed

theorem moveProject_frame_witness:
  "refs_ok one_project
   \<and> projects (moveProject ''0.5'' Finished one_project) = [0]
   \<and> heap (moveProject ''0.5'' Finished one_project)
       = [\<lparr>id' = ''0.5'', title = ''Build API'',
           description = ''Design and build a REST API'', people = Dec 3 0,
           status = Finished\<rparr>]"
  using moveProject_frame [of one_project "''0.5''" 0 Finished]
  by (simp add: one_project_eq refs_ok_def moveProject_def)

text \<open>
  What a delivered array shows of its projects is read through the heap. The update
  that \<open>moveProject\<close> makes leaves the other four fields of every object alone.
\<close>

lemma status_update_keeps_fields:
  "id' (h[x := (h ! x)\<lparr>status := st\<rparr>] ! r) = id' (h ! r)
   \<and> title (h[x := (h ! x)\<lparr>status := st\<rparr>] ! r) = title (h ! r)
   \<and> description (h[x := (h ! x)\<lparr>status := st\<rparr>] ! r) = description (h ! r)
   \<and> people (h[x := (h ! x)\<lparr>status := st\<rparr>] ! r) = people (h ! r)"
proof (cases "x < length h")
  case True
  then show ?thesis by (cases "x = r") (simp_all add: nth_list_update)
next
  case False
  then have "h[x := (h ! x)\<lparr>status := st\<rparr>] = h" by (simp add: list_update_beyond)
  then show ?thesis by simp
qed

text \<open>
  Claim C8, as the code has it. The array handed to a listener is a new array, so the
  projects it holds and their order never change afterwards, but the projects in it are
  the store's own objects. A later \<open>addProject\<close> leaves them all as they were. A later
  \<open>moveProject\<close> leaves their id, title, description and people as they were and
  leaves every object but the first match untouched; the status it writes into the
  first match is the status seen through every array delivered before.
\<close>

theorem snapshot_after_mutation:
  assumes snap: "list_all (\<lambda>r. r < length (heap s)) snapshot"
  shows "map ((!) (heap (addProject t d n random s))) snapshot = map ((!) (heap s)) snapshot
    \<and> map (\<lambda>r. id' (heap (moveProject projectId newStatus s) ! r)) snapshot
        = map (\<lambda>r. id' (heap s ! r)) snapshot
    \<and> map (\<lambda>r. title (heap (moveProject projectId newStatus s) ! r)) snapshot
        = map (\<lambda>r. title (heap s ! r)) snapshot
    \<and> map (\<lambda>r. description (heap (moveProject projectId newStatus s) ! r)) snapshot
        = map (\<lambda>r. description (heap s ! r)) snapshot
    \<and> map (\<lambda>r. people (heap (moveProject projectId newStatus s) ! r)) snapshot
        = map (\<lambda>r. people (heap s ! r)) snapshot
    \<and> (\<forall>r \<in> set snapshot.
          find (\<lambda>prj. id' (heap s ! prj) = projectId) (projects s) \<noteq> Some r
          \<longrightarrow> heap (moveProject projectId newStatus s) ! r = heap s ! r)
    \<and> (\<forall>r \<in> set snapshot.
          find (\<lambda>prj. id' (heap s ! prj) = projectId) (projects s) = Some r
          \<longrightarrow> status (heap (moveProject projectId newStatus s) ! r) = newStatus)"
proof -
  from snap have below: "\<forall>r \<in> set snapshot. r < length (heap s)"
    by (simp add: list_all_iff)
  then have add: "map ((!) (heap (addProject t d n random s))) snapshot = map ((!) (heap s)) snapshot"
    by (simp add: addProject_def Let_def nth_append)
  have fields: "id' (heap (moveProject projectId newStatus s) ! r) = id' (heap s ! r)
      \<and> title (heap (moveProject projectId newStatus s) ! r) = title (heap s ! r)
      \<and> description (heap (moveProject projectId newStatus s) ! r) = description (heap s ! r)
      \<and> people (heap (moveProject projectId newStatus s) ! r) = people (heap s ! r)" for r
    by (simp add: moveProject_def status_update_keeps_fields split: option.splits)
  have other: "\<forall>r \<in> set snapshot.
          find (\<lambda>prj. id' (heap s ! prj) = projectId) (projects s) \<noteq> Some r
          \<longrightarrow> heap (moveProject projectId newStatus s) ! r = heap s ! r"
    by (auto simp add: moveProject_def split: option.splits)
  have moved: "\<forall>r \<in> set snapshot.
          find (\<lambda>prj. id' (heap s ! prj) = projectId) (projects s) = Some r
          \<longrightarrow> status (heap (moveProject projectId newStatus s) ! r) = newStatus"
    using below by (auto simp add: moveProject_def)
  from add fields other moved show ?thesis by simp
qed

theorem snapshot_after_mutation_witness:
  "list_all (\<lambda>r. r < length (heap one_project)) (snd (world one_project ! 0))
   \<and> map ((!) (heap (addProject ''Shop'' ''A web shop'' (Dec 2 0) (Dec 25 (- 2)) one_project)))
        (snd (world one_project ! 0))
      = map ((!) (heap one_project)) (snd (world one_project ! 0))
   \<and> map (\<lambda>r. status (heap (moveProject ''0.5'' Finished one_project) ! r))
        (snd (world one_project ! 0)) = [Finished]"
  using snapshot_after_mutation
    [of one_project "snd (world one_project ! 0)" "''Shop''" "''A web shop''" "Dec 2 0"
      "Dec 25 (- 2)" "''0.5''" Finished]
  by (simp add: one_project_eq)

text \<open>
  The array delivered when the project was added still holds the same reference after
  \<open>moveProject\<close>, and the project read through it has changed from \<open>Active\<close> to
  \<open>Finished\<close>.
\<close>

theorem snapshot_shares_projects:
  "snd (world (moveProject ''0.5'' Finished one_project) ! 0) = snd (world one_project ! 0)
   \<and> map ((!) (heap one_project)) (snd (world one_project ! 0))
       = [\<lparr>id' = ''0.5'', title = ''Build API'',
           description = ''Design and build a REST API'', people = Dec 3 0,
           status = Active\<rparr>]
   \<and> map ((!) (heap (moveProject ''0.5'' Finished one_project)))
         (snd (world (moveProject ''0.5'' Finished one_project) ! 0))
       = [\<lparr>id' = ''0.5'', title = ''Build API'',
           description = ''Design and build a REST API'', people = Dec 3 0,
           status = Finished\<rparr>]"
  by (simp add: one_project_eq moveProject_def updateListeners_def record_call_def)

section \<open>Properties of the views\<close>





lemma listeners_moveProject: "listeners (moveProject projectId newStatus s) = listeners s"
  by (simp add: moveProject_def split: option.splits)




text \<open>
  Claim C9. From the start of the program on any page, adding the project
  \<open>Build API\<close> for 3 people and moving it to \<open>Finished\<close> by its id leaves one item in
  the finished list, with the title \<open>Build API\<close> and the line \<open>3 persons assigned\<close>,
  and no item in the active list. The getter \<open>persons\<close> gives \<open>1 person\<close> when people
  is 1, and the number followed by \<open>persons\<close> otherwise.
\<close>

theorem build_api_example:
  fixes random :: number and pg :: page and prj :: Project
  defines "added \<equiv> addProject ''Build API'' ''Design and build a REST API'' (Dec 3 0) random (start pg)"
  defines "moved \<equiv> moveProject (id' (heap added ! 0)) Finished added"
  shows "projects added = [0]
    \<and> listEl (world moved) finished
        = [\<lparr>project = 0, h2 = ''Build API'', h3 = ''3 persons assigned'',
            p = ''Design and build a REST API''\<rparr>]
    \<and> assignedProjects (world moved) finished = [0]
    \<and> listEl (world moved) active = []
    \<and> assignedProjects (world moved) active = []
    \<and> persons prj = (if js_strict_eq (people prj) (Dec 1 0) then ''1 person''
                      else number_toString (people prj) @ '' persons'')
    \<and> persons (prj\<lparr>people := Dec 1 0\<rparr>) = ''1 person''
    \<and> persons (prj\<lparr>people := Dec 3 0\<rparr>) = ''3 persons''
    \<and> persons (prj\<lparr>people := Dec 0 0\<rparr>) = ''0 persons''"
proof -
  have a: "added =
      \<lparr>listeners = [projectListListener active, projectListListener finished],
       projects = [0],
       heap = [\<lparr>id' = number_toString random, title = ''Build API'',
                description = ''Design and build a REST API'', people = Dec 3 0,
                status = Active\<rparr>],
       world = pg\<lparr>assignedProjects := (assignedProjects pg)(active := [0], finished := []),
                  listEl := (listEl pg)
                    (active := [\<lparr>project = 0, h2 = ''Build API'', h3 = ''3 persons assigned'',
                                 p = ''Design and build a REST API''\<rparr>],
                     finished := [])\<rparr>\<rparr>"
    by (simp add: added_def start_def new_ProjectList_def addListener_def addProject_def
        updateListeners_def projectListListener_def renderProjects_def new_ProjectItem_def
        persons_def dec_val_def print_simps)
  have m: "listEl (world moved) finished
        = [\<lparr>project = 0, h2 = ''Build API'', h3 = ''3 persons assigned'',
            p = ''Design and build a REST API''\<rparr>]
    \<and> assignedProjects (world moved) finished = [0]
    \<and> listEl (world moved) active = []
    \<and> assignedProjects (world moved) active = []"
    unfolding moved_def a
    by (simp add: moveProject_def updateListeners_def projectListListener_def
        renderProjects_def new_ProjectItem_def persons_def dec_val_def print_simps)
  have p: "persons (prj\<lparr>people := Dec 1 0\<rparr>) = ''1 person''
    \<and> persons (prj\<lparr>people := Dec 3 0\<rparr>) = ''3 persons''
    \<and> persons (prj\<lparr>people := Dec 0 0\<rparr>) = ''0 persons''"
    by (simp add: persons_def dec_val_def print_simps)
  from a m p show ?thesis by (simp add: persons_def)
qed

section \<open>Properties of the input view\<close>

text \<open>
  The two ways through \<open>submitHandler\<close>. Either way the last statement is
  \<open>clearInputs\<close>.
\<close>

lemma gatherUserInput_None:
  "fst (gatherUserInput toNumber pg) = None \<longleftrightarrow>
     \<not> (validate (titleValidatable (titleInputElement pg))
        \<and> validate (descriptionValidatable (descriptionInputElement pg))
        \<and> validate (peopleValidatable (toNumber (peopleInputElement pg))))"
  by (auto simp add: gatherUserInput_def Let_def)

lemma submitHandler_invalid:
  assumes "fst (gatherUserInput toNumber (world s)) = None"
  shows "submitHandler toNumber random s =
     clearInputs (s\<lparr>world := (world s)\<lparr>alerts := alerts (world s) @ [''Invalid input, please try again'']\<rparr>\<rparr>)"
  using assms by (auto simp add: submitHandler_def gatherUserInput_def Let_def split: if_splits)

lemma submitHandler_valid:
  assumes "fst (gatherUserInput toNumber (world s)) \<noteq> None"
  shows "submitHandler toNumber random s =
     clearInputs (addProject (titleInputElement (world s)) (descriptionInputElement (world s))
       (toNumber (peopleInputElement (world s))) random s)"
  using assms by (auto simp add: submitHandler_def gatherUserInput_def clearInputs_def Let_def split: if_splits)

text \<open>
  Claim C3. A submit with the title \<open>Shop\<close>, the description \<open>web\<close> (too short) and
  \<open>3\<close> people: the alert is shown and nothing is added to the store, and the three
  inputs are empty afterwards, although the claim has them keep what was entered.
\<close>

theorem submitHandler_clears_after_alert:
  "alerts (world (submitHandler toNumber random
      (start (empty_page\<lparr>titleInputElement := ''Shop'', descriptionInputElement := ''web'',
                          peopleInputElement := ''3''\<rparr>))))
     = [''Invalid input, please try again'']
   \<and> projects (submitHandler toNumber random
      (start (empty_page\<lparr>titleInputElement := ''Shop'', descriptionInputElement := ''web'',
                          peopleInputElement := ''3''\<rparr>))) = []
   \<and> heap (submitHandler toNumber random
      (start (empty_page\<lparr>titleInputElement := ''Shop'', descriptionInputElement := ''web'',
                          peopleInputElement := ''3''\<rparr>))) = []
   \<and> titleInputElement (world (submitHandler toNumber random
      (start (empty_page\<lparr>titleInputElement := ''Shop'', descriptionInputElement := ''web'',
                          peopleInputElement := ''3''\<rparr>)))) = []
   \<and> descriptionInputElement (world (submitHandler toNumber random
      (start (empty_page\<lparr>titleInputElement := ''Shop'', descriptionInputElement := ''web'',
                          peopleInputElement := ''3''\<rparr>)))) = []
   \<and> peopleInputElement (world (submitHandler toNumber random
      (start (empty_page\<lparr>titleInputElement := ''Shop'', descriptionInputElement := ''web'',
                          peopleInputElement := ''3''\<rparr>)))) = []"
proof -
  have "\<not> validate (descriptionValidatable ''web'')"
    by (simp add: descriptionValidatable_def validate_def js_gt_def of_length_def dec_val_def)
  then show ?thesis
    by (simp add: submitHandler_def gatherUserInput_def clearInputs_def start_def
        new_ProjectList_def addListener_def empty_page_def)
qed

end
